theory Spec2Isabelle
  imports Main
begin

section \<open>Values exchanged with the engine\<close>

text \<open>
  The bridge reads every response with \<open>json.loads\<close>, so a response, a snapshot and
  every field of a snapshot is a decoded JSON value. \<open>JNull\<close> is Python's \<open>None\<close>.
  A Python \<open>dict\<close> is an association list in insertion order; a key is looked up with
  \<open>map_of\<close>. Numbers are integers, as the counts and identifiers of the engine are.
\<close>

datatype json =
    JNull
  | JBool bool
  | JInt int
  | JStr string
  | JArr "json list"
  | JObj "(string \<times> json) list"

type_synonym dict = "(string \<times> json) list"

text \<open>Python's truth value of an object, as used by \<open>if x:\<close> and \<open>not x\<close>.\<close>

fun truthy :: "json \<Rightarrow> bool" where
  "truthy JNull = False"
| "truthy (JBool b) = b"
| "truthy (JInt n) = (n \<noteq> 0)"
| "truthy (JStr s) = (s \<noteq> [])"
| "truthy (JArr xs) = (xs \<noteq> [])"
| "truthy (JObj d) = (d \<noteq> [])"

text \<open>The exceptions the modelled code can raise, each with the text \<open>str(e)\<close> gives.\<close>

datatype pyerr =
    AttributeError string
  | TypeError string
  | JSONDecodeError string
  | ValueError string
  | RecursionError string
  | OtherError string
  | TimeoutExpired

fun type_name :: "json \<Rightarrow> string" where
  "type_name JNull = ''NoneType''"
| "type_name (JBool b) = ''bool''"
| "type_name (JInt n) = ''int''"
| "type_name (JStr s) = ''str''"
| "type_name (JArr xs) = ''list''"
| "type_name (JObj d) = ''dict''"

definition no_attribute :: "json \<Rightarrow> string \<Rightarrow> pyerr" where
  "no_attribute v a =
     AttributeError ([CHR 0x27] @ type_name v @ [CHR 0x27] @ '' object has no attribute ''
                     @ [CHR 0x27] @ a @ [CHR 0x27])"

fun err_str :: "pyerr \<Rightarrow> string" where
  "err_str (AttributeError m) = m"
| "err_str (TypeError m) = m"
| "err_str (JSONDecodeError m) = m"
| "err_str (ValueError m) = m"
| "err_str (RecursionError m) = m"
| "err_str (OtherError m) = m"
| "err_str TimeoutExpired = ''timed out''"

text \<open>\<open>d.get(k)\<close> and \<open>d.get(k, dflt)\<close> on a dict.\<close>

definition dict_get :: "dict \<Rightarrow> string \<Rightarrow> json" where
  "dict_get d k = (case map_of d k of None \<Rightarrow> JNull | Some v \<Rightarrow> v)"

definition dict_get_default :: "dict \<Rightarrow> string \<Rightarrow> json \<Rightarrow> json" where
  "dict_get_default d k dflt = (case map_of d k of None \<Rightarrow> dflt | Some v \<Rightarrow> v)"

text \<open>The same calls on an arbitrary object: only a dict has the method \<open>get\<close>.\<close>

fun py_get :: "json \<Rightarrow> string \<Rightarrow> pyerr + json" where
  "py_get (JObj d) k = Inr (dict_get d k)"
| "py_get v k = Inl (no_attribute v ''get'')"

fun py_get_default :: "json \<Rightarrow> string \<Rightarrow> json \<Rightarrow> pyerr + json" where
  "py_get_default (JObj d) k dflt = Inr (dict_get_default d k dflt)"
| "py_get_default v k dflt = Inl (no_attribute v ''get'')"

section \<open>The engine process and one exchange\<close>

text \<open>
  What \<open>poll()\<close> reports about the child process: still running, or exited with a
  return code. The field \<open>bridge_process\<close> of a session is \<open>None\<close> until the process
  has been started.
\<close>

datatype proc_status = Running | Exited int

text \<open>
  What the pipes do during one exchange: whether writing and flushing the command line
  raises (with the text of the exception), whether reading the response line raises,
  the line read (empty when the stream is closed), and what \<open>json.loads\<close> makes of the
  stripped line: the decoded value, or the exception it raises. That is a
  \<open>JSONDecodeError\<close> for a line that is not JSON, a plain \<open>ValueError\<close> for an
  integer of more digits than the interpreter converts, a \<open>RecursionError\<close> for a
  line nested too deeply. The parser is library code; its outcome is an input of the
  model.
\<close>

record bridge_io =
  write_error :: "string option"
  read_error :: "string option"
  response_line :: string
  decoded :: "pyerr + json"

definition failure :: "string \<Rightarrow> dict" where
  "failure msg = [(''success'', JBool False), (''error'', JStr msg)]"

text \<open>The body of the \<open>try\<close> block of \<open>_call_bridge\<close>.\<close>

definition exchange :: "bridge_io \<Rightarrow> dict \<Rightarrow> pyerr + dict" where
  "exchange io command =
     (case write_error io of
        Some m \<Rightarrow> Inl (OtherError m)
      | None \<Rightarrow>
         (case read_error io of
            Some m \<Rightarrow> Inl (OtherError m)
          | None \<Rightarrow>
             if response_line io = [] then Inr (failure ''No response from bridge'')
             else
               (case decoded io of
                  Inl e \<Rightarrow> Inl e
                | Inr response \<Rightarrow>
                   (case response of
                      JObj d \<Rightarrow> Inr d
                    | _ \<Rightarrow> Inl (no_attribute response ''get'')))))"

text \<open>
  The lines of \<open>_call_bridge\<close> that describe the outgoing command for the log. They
  stand before the \<open>try\<close> block: for a command \<open>action\<close> they call \<open>get\<close> on its
  \<open>args\<close>, which raises when \<open>args\<close> is not a mapping.
\<close>

definition log_command :: "dict \<Rightarrow> pyerr option" where
  "log_command command =
     (if dict_get_default command ''cmd'' (JStr ''unknown'') = JStr ''action'' then
        (case py_get_default (dict_get_default command ''args'' (JObj [])) ''player'' (JStr ''?'') of
           Inl e \<Rightarrow> Some e
         | Inr p \<Rightarrow> None)
      else None)"

text \<open>
  \<open>_call_bridge\<close>: the liveness check, the description of the command, the exchange,
  and the two \<open>except\<close> clauses. \<open>Inl\<close> is an exception that leaves the method.
\<close>

definition call_bridge :: "proc_status option \<Rightarrow> bridge_io \<Rightarrow> dict \<Rightarrow> pyerr + dict" where
  "call_bridge bp io command =
     (case bp of
        None \<Rightarrow> Inr (failure ''Bridge server not running'')
      | Some (Exited c) \<Rightarrow> Inr (failure ''Bridge server not running'')
      | Some Running \<Rightarrow>
         (case log_command command of
            Some e \<Rightarrow> Inl e
          | None \<Rightarrow>
             (case exchange io command of
                Inr response \<Rightarrow> Inr response
              | Inl (JSONDecodeError m) \<Rightarrow> Inr (failure (''JSON decode error: '' @ m))
              | Inl e \<Rightarrow> Inr (failure (''Bridge communication error: '' @ err_str e)))))"

section \<open>The session\<close>

record turn_record =
  turn :: int
  player :: json
  action :: json
  arg :: json
  timestamp :: string
  game_state_before :: json
  game_state_after :: json

record session =
  game_state :: json
  turn_number :: int
  game_history :: "turn_record list"
  bridge_process :: "proc_status option"

text \<open>The session as \<open>__init__\<close> leaves it, with the process started or not.\<close>

definition init_session :: "proc_status option \<Rightarrow> session" where
  "init_session bp =
     \<lparr>game_state = JNull, turn_number = 0, game_history = [], bridge_process = bp\<rparr>"

subsection \<open>The state digest written to the log\<close>

text \<open>
  \<open>_log_game_state\<close> only writes to the log, but it calls methods of the snapshot's
  fields and adds up unit counts, which raises on a snapshot of another shape. The
  model keeps the totals and the exception.
\<close>

definition or_zero :: "json \<Rightarrow> json" where
  "or_zero v = (if truthy v then v else JInt 0)"

fun add_units :: "int \<Rightarrow> json \<Rightarrow> pyerr + int" where
  "add_units acc (JInt n) = Inr (acc + n)"
| "add_units acc (JBool b) = Inr (acc + (if b then 1 else 0))"
| "add_units acc v =
     Inl (TypeError (''unsupported operand type(s) for +=: '' @ [CHR 0x27] @ ''int''
                     @ [CHR 0x27] @ '' and '' @ [CHR 0x27] @ type_name v @ [CHR 0x27]))"

definition add_pair :: "int \<times> int \<Rightarrow> json \<Rightarrow> json \<Rightarrow> pyerr + (int \<times> int)" where
  "add_pair acc a b =
     (case add_units (fst acc) (or_zero a) of
        Inl e \<Rightarrow> Inl e
      | Inr x \<Rightarrow>
         (case add_units (snd acc) (or_zero b) of
            Inl e \<Rightarrow> Inl e
          | Inr y \<Rightarrow> Inr (x, y)))"

fun count_units :: "dict \<Rightarrow> (int \<times> int) \<times> (int \<times> int) \<Rightarrow> pyerr + ((int \<times> int) \<times> (int \<times> int))" where
  "count_units [] acc = Inr acc"
| "count_units ((city, unit_array) # rest) (armies, fleets) =
     (case unit_array of
        JArr us \<Rightarrow>
          if city \<noteq> ''reserve'' then
            (case (if length us \<ge> 2 then add_pair armies (us ! 0) (us ! 1) else Inr armies) of
               Inl e \<Rightarrow> Inl e
             | Inr armies' \<Rightarrow>
                (case (if length us \<ge> 4 then add_pair fleets (us ! 2) (us ! 3) else Inr fleets) of
                   Inl e \<Rightarrow> Inl e
                 | Inr fleets' \<Rightarrow> count_units rest (armies', fleets')))
          else count_units rest (armies, fleets)
      | _ \<Rightarrow> count_units rest (armies, fleets))"

definition log_game_state :: "json \<Rightarrow> pyerr option" where
  "log_game_state gs =
     (if \<not> truthy gs then None
      else
        (case gs of
           JObj d \<Rightarrow>
             (case dict_get_default d ''actions'' (JObj []) of
                JObj acts \<Rightarrow>
                  (let units = dict_get_default d ''units'' (JObj []) in
                   if truthy units then
                     (case units of
                        JObj u \<Rightarrow>
                          (case count_units u ((0, 0), (0, 0)) of
                             Inl e \<Rightarrow> Some e
                           | Inr totals \<Rightarrow> None)
                      | _ \<Rightarrow> Some (no_attribute units ''items''))
                   else None)
              | other \<Rightarrow> Some (no_attribute other ''keys''))
         | _ \<Rightarrow> Some (no_attribute gs ''get'')))"

subsection \<open>Operations\<close>

text \<open>
  Every operation takes the session and returns it with what the call produced:
  \<open>Inr\<close> the returned value, \<open>Inl\<close> an exception that left the method.
\<close>

definition setup_command :: "json \<Rightarrow> json \<Rightarrow> json \<Rightarrow> dict" where
  "setup_command seed scenario options =
     [(''cmd'', JStr ''setup''),
      (''args'', JObj [(''seed'', seed), (''scenario'', scenario), (''options'', options)])]"

definition action_command :: "json \<Rightarrow> json \<Rightarrow> json \<Rightarrow> dict" where
  "action_command pl act ag =
     [(''cmd'', JStr ''action''),
      (''args'', JObj [(''player'', pl), (''action'', act), (''arg'', ag)])]"

definition new_game :: "session \<Rightarrow> json \<Rightarrow> json \<Rightarrow> json \<Rightarrow> bridge_io \<Rightarrow> (pyerr + dict) \<times> session" where
  "new_game s seed scenario options io =
     (let options' = (if options = JNull then JObj [] else options);
          s1 = s\<lparr>turn_number := 0, game_history := []\<rparr>;
          command = setup_command seed scenario options'
      in case call_bridge (bridge_process s1) io command of
           Inl e \<Rightarrow> (Inl e, s1)
         | Inr result \<Rightarrow>
            if truthy (dict_get result ''success'') then
              (let s2 = s1\<lparr>game_state := dict_get result ''gameState''\<rparr> in
               if truthy (game_state s2) then
                 (case py_get (game_state s2) ''active_player'' of
                    Inl e \<Rightarrow> (Inl e, s2)
                  | Inr active_player \<Rightarrow>
                     (case log_game_state (game_state s2) of
                        Some e \<Rightarrow> (Inl e, s2)
                      | None \<Rightarrow> (Inr result, s2)))
               else (Inr result, s2))
            else (Inr result, s1))"

definition get_state :: "session \<Rightarrow> bridge_io \<Rightarrow> (pyerr + dict) \<times> session" where
  "get_state s io =
     (case call_bridge (bridge_process s) io [(''cmd'', JStr ''state'')] of
        Inl e \<Rightarrow> (Inl e, s)
      | Inr result \<Rightarrow>
         if truthy (dict_get result ''success'')
         then (Inr result, s\<lparr>game_state := dict_get result ''gameState''\<rparr>)
         else (Inr result, s))"

definition get_actions :: "session \<Rightarrow> bool \<Rightarrow> (pyerr + dict) \<times> session" where
  "get_actions s include_undo =
     (if \<not> truthy (game_state s) then (Inr (failure ''No active game''), s)
      else
        (case py_get_default (game_state s) ''actions'' (JObj []) of
           Inl e \<Rightarrow> (Inl e, s)
         | Inr raw_actions \<Rightarrow>
            (case py_get (game_state s) ''active_player'' of
               Inl e \<Rightarrow> (Inl e, s)
             | Inr active_player \<Rightarrow>
                (case raw_actions of
                   JObj raw \<Rightarrow>
                     (let actions = (if include_undo then raw
                                     else filter (\<lambda>(k, v). k \<noteq> ''undo'') raw)
                      in (Inr [(''success'', JBool True),
                               (''actions'', JObj actions),
                               (''active_player'', active_player),
                               (''message'', JStr (''Available actions from game state''
                                   @ (if include_undo then [] else '' (undo filtered)'')))],
                          s))
                 | other \<Rightarrow>
                     (Inl (no_attribute other (if include_undo then ''keys'' else ''items'')),
                      s)))))"

definition execute_action ::
    "session \<Rightarrow> json \<Rightarrow> json \<Rightarrow> json \<Rightarrow> string \<Rightarrow> bridge_io \<Rightarrow> (pyerr + dict) \<times> session" where
  "execute_action s pl act ag now io =
     (let s1 = s\<lparr>turn_number := turn_number s + 1\<rparr>;
          command = action_command pl act ag
      in case call_bridge (bridge_process s1) io command of
           Inl e \<Rightarrow> (Inl e, s1)
         | Inr result \<Rightarrow>
            if truthy (dict_get result ''success'') then
              (let old_state = game_state s1;
                   s2 = s1\<lparr>game_state := dict_get result ''gameState''\<rparr>;
                   action_record = \<lparr>turn = turn_number s2, player = pl, action = act, arg = ag,
                                    timestamp = now, game_state_before = old_state,
                                    game_state_after = game_state s2\<rparr>;
                   s3 = s2\<lparr>game_history := game_history s2 @ [action_record]\<rparr>
               in if truthy (game_state s3) then
                    (case py_get_default (game_state s3) ''prompt'' (JStr []) of
                       Inl e \<Rightarrow> (Inl e, s3)
                     | Inr prompt \<Rightarrow>
                        (case log_game_state (game_state s3) of
                           Some e \<Rightarrow> (Inl e, s3)
                         | None \<Rightarrow> (Inr result, s3)))
                  else (Inr result, s3))
            else (Inr result, s1))"

definition is_game_over :: "session \<Rightarrow> pyerr + json" where
  "is_game_over s =
     (if \<not> truthy (game_state s) then Inr (JBool False)
      else py_get_default (game_state s) ''game_over'' (JBool False))"

definition get_winner :: "session \<Rightarrow> pyerr + json" where
  "get_winner s =
     (if \<not> truthy (game_state s) then Inr JNull
      else py_get (game_state s) ''winner'')"

definition get_active_player :: "session \<Rightarrow> pyerr + json" where
  "get_active_player s =
     (if \<not> truthy (game_state s) then Inr JNull
      else py_get (game_state s) ''active_player'')"

definition get_prompt :: "session \<Rightarrow> pyerr + json" where
  "get_prompt s =
     (if \<not> truthy (game_state s) then Inr (JStr [])
      else py_get_default (game_state s) ''prompt'' (JStr []))"

definition get_game_history :: "session \<Rightarrow> turn_record list" where
  "get_game_history s = game_history s"

definition get_turn_number :: "session \<Rightarrow> int" where
  "get_turn_number s = turn_number s"

subsection \<open>Shutdown\<close>

text \<open>
  What the operating system does during \<open>__del__\<close>: the pipes of the \<open>quit\<close>
  exchange, whether \<open>wait(timeout=2)\<close> returns the exit code in time (\<open>None\<close>: it
  raises \<open>TimeoutExpired\<close>), and the state the process is in once \<open>terminate()\<close> has
  sent its signal.
\<close>

record shutdown_io =
  quit_io :: bridge_io
  wait_result :: "int option"
  after_terminate :: proc_status

text \<open>The body of the \<open>try\<close> block of \<open>__del__\<close>.\<close>

definition del_try :: "session \<Rightarrow> shutdown_io \<Rightarrow> pyerr + session" where
  "del_try s sio =
     (case call_bridge (bridge_process s) (quit_io sio) [(''cmd'', JStr ''quit'')] of
        Inl e \<Rightarrow> Inl e
      | Inr reply \<Rightarrow>
         (case wait_result sio of
            None \<Rightarrow> Inl TimeoutExpired
          | Some c \<Rightarrow> Inr (s\<lparr>bridge_process := Some (Exited c)\<rparr>)))"

text \<open>
  \<open>__del__\<close>: the first component is the exception that leaves the method, if any.
  The bare \<open>except\<close> clause catches whatever the \<open>try\<close> block raises.
\<close>

definition py_del :: "session \<Rightarrow> shutdown_io \<Rightarrow> pyerr option \<times> session" where
  "py_del s sio =
     (case bridge_process s of
        Some Running \<Rightarrow>
          (case del_try s sio of
             Inr s' \<Rightarrow> (None, s')
           | Inl e \<Rightarrow> (None, s\<lparr>bridge_process := Some (after_terminate sio)\<rparr>))
      | _ \<Rightarrow> (None, s))"

text \<open>Shutdown called again and again, stopping at the first call that raises.\<close>

fun shutdown_many :: "session \<Rightarrow> shutdown_io list \<Rightarrow> pyerr option \<times> session" where
  "shutdown_many s [] = (None, s)"
| "shutdown_many s (sio # rest) =
     (case py_del s sio of
        (Some e, s') \<Rightarrow> (Some e, s')
      | (None, s') \<Rightarrow> shutdown_many s' rest)"

text \<open>The process exits on its own or is killed from outside: \<open>poll()\<close> reports the code.\<close>

definition process_exits :: "int \<Rightarrow> session \<Rightarrow> session" where
  "process_exits c s =
     s\<lparr>bridge_process := (case bridge_process s of None \<Rightarrow> None | Some p \<Rightarrow> Some (Exited c))\<rparr>"

subsection \<open>Sequences of actions\<close>

text \<open>One \<open>execute_action\<close> call: player, action, argument, the clock, the pipes.\<close>

type_synonym call = "json \<times> json \<times> json \<times> string \<times> bridge_io"

definition do_call :: "session \<Rightarrow> call \<Rightarrow> (pyerr + dict) \<times> session" where
  "do_call s c = (case c of (pl, act, ag, now, io) \<Rightarrow> execute_action s pl act ag now io)"

text \<open>A call succeeds when it returns a result whose success flag is true.\<close>

definition succeeded :: "pyerr + dict \<Rightarrow> bool" where
  "succeeded res = (case res of Inl e \<Rightarrow> False | Inr r \<Rightarrow> truthy (dict_get r ''success''))"

fun run_actions :: "session \<Rightarrow> call list \<Rightarrow> session" where
  "run_actions s [] = s"
| "run_actions s (c # cs) = run_actions (snd (do_call s c)) cs"

fun all_succeed :: "session \<Rightarrow> call list \<Rightarrow> bool" where
  "all_succeed s [] = True"
| "all_succeed s (c # cs) = (succeeded (fst (do_call s c)) \<and> all_succeed (snd (do_call s c)) cs)"

subsection \<open>Engine replies used in the examples\<close>

definition engine_reply :: "string \<Rightarrow> json \<Rightarrow> bridge_io" where
  "engine_reply line v =
     \<lparr>write_error = None, read_error = None, response_line = line, decoded = Inr v\<rparr>"

definition reply_state :: "json \<Rightarrow> bridge_io" where
  "reply_state gs =
     engine_reply ''{success: true, gameState: ...}''
        (JObj [(''success'', JBool True), (''gameState'', gs)])"

definition reply_rejected :: bridge_io where
  "reply_rejected =
     engine_reply ''{success: false, error: Invalid action}''
        (JObj [(''success'', JBool False), (''error'', JStr ''Invalid action'')])"

definition opening_state :: json where
  "opening_state =
     JObj [(''active_player'', JStr ''Persia''),
           (''prompt'', JStr ''Persian Preparation Phase''),
           (''actions'', JObj [(''draw'', JInt 1), (''undo'', JInt 1)]),
           (''game_over'', JBool False)]"

definition after_draw :: json where
  "after_draw =
     JObj [(''active_player'', JStr ''Persia''),
           (''prompt'', JStr ''Persian Preparation Phase: build''),
           (''actions'', JObj [(''city'', JArr [JStr ''Abydos'', JStr ''Ephesos'']),
                              (''next'', JInt 1)]),
           (''units'', JObj [(''Abydos'', JArr [JInt 0, JInt 2, JInt 0, JInt 1]),
                            (''reserve'', JArr [JInt 5, JInt 6])]),
           (''game_over'', JBool False)]"

definition finished_without_winner :: json where
  "finished_without_winner = JObj [(''game_over'', JBool True)]"

definition fresh_game :: session where
  "fresh_game =
     snd (new_game (init_session (Some Running)) (JInt 12345) (JStr ''Standard'') JNull
            (reply_state opening_state))"

definition one_turn_played :: session where
  "one_turn_played =
     snd (execute_action fresh_game (JStr ''Persia'') (JStr ''draw'') JNull
            ''2025-01-01T12:00:00'' (reply_state after_draw))"

definition reply_long_integer :: bridge_io where
  "reply_long_integer =
     \<lparr>write_error = None, read_error = None, response_line = replicate 5000 (CHR ''9''),
      decoded = Inl (ValueError ''Exceeds the limit (4300 digits) for integer string conversion'')\<rparr>"

definition listed_actions :: json where
  "listed_actions =
     JObj [(''active_player'', JStr ''Persia''),
           (''actions'', JArr [JStr ''draw'', JStr ''undo''])]"

text \<open>Two sessions whose snapshot a \<open>state\<close> query has set.\<close>

definition empty_snapshot_session :: session where
  "empty_snapshot_session =
     snd (get_state (init_session (Some Running)) (reply_state (JObj [])))"

definition listed_actions_session :: session where
  "listed_actions_session =
     snd (get_state (init_session (Some Running)) (reply_state listed_actions))"

definition finished_game :: session where
  "finished_game =
     snd (execute_action one_turn_played (JStr ''Persia'') (JStr ''next'') JNull
            ''2025-01-01T12:00:09'' (reply_state finished_without_winner))"

text \<open>
  The history is in order when the recorded turn numbers increase strictly, start above
  zero and do not exceed the session's turn counter.
\<close>

definition history_ordered :: "session \<Rightarrow> bool" where
  "history_ordered s =
     (sorted_wrt (<) (map turn (game_history s)) \<and>
      list_all (\<lambda>r. 0 < turn r \<and> turn r \<le> turn_number s) (game_history s))"

section \<open>Properties\<close>

subsection \<open>Evaluating the exchange and the examples\<close>

text \<open>The commands the operations build are described for the log without a raise.\<close>

lemma log_command_setup: "log_command (setup_command seed scenario options) = None"
  by (simp add: log_command_def setup_command_def dict_get_default_def)

lemma log_command_action: "log_command (action_command pl act ag) = None"
  by (simp add: log_command_def action_command_def dict_get_default_def)

lemma log_command_state: "log_command [(''cmd'', JStr ''state'')] = None"
  by (simp add: log_command_def dict_get_default_def)

lemma log_command_quit: "log_command [(''cmd'', JStr ''quit'')] = None"
  by (simp add: log_command_def dict_get_default_def)

lemmas log_command_built =
  log_command_setup log_command_action log_command_state log_command_quit

lemma call_bridge_not_running:
  "bp \<noteq> Some Running \<Longrightarrow>
     call_bridge bp io command = Inr (failure ''Bridge server not running'')"
  by (auto simp: call_bridge_def split: option.splits proc_status.splits)

lemma call_bridge_returns:
  "log_command command = None \<Longrightarrow> \<exists>result. call_bridge bp io command = Inr result"
  by (auto simp: call_bridge_def split: option.splits proc_status.splits sum.splits pyerr.splits)

lemma call_bridge_reply:
  "line \<noteq> [] \<Longrightarrow> log_command command = None \<Longrightarrow>
     call_bridge (Some Running) (engine_reply line (JObj d)) command = Inr d"
  by (simp add: call_bridge_def exchange_def engine_reply_def)

lemma call_bridge_rejected:
  "log_command command = None \<Longrightarrow>
     call_bridge (Some Running) reply_rejected command =
       Inr [(''success'', JBool False), (''error'', JStr ''Invalid action'')]"
  by (simp add: reply_rejected_def call_bridge_reply)

lemma log_opening_state: "log_game_state opening_state = None"
  by (simp add: log_game_state_def opening_state_def dict_get_default_def)

lemma log_after_draw: "log_game_state after_draw = None"
  by (simp add: log_game_state_def after_draw_def dict_get_default_def add_pair_def or_zero_def)

lemma log_finished_without_winner: "log_game_state finished_without_winner = None"
  by (simp add: log_game_state_def finished_without_winner_def dict_get_default_def)

lemma fresh_game_eq:
  "fresh_game = \<lparr>game_state = opening_state, turn_number = 0, game_history = [],
                  bridge_process = Some Running\<rparr>"
proof -
  have "truthy opening_state" and "py_get opening_state ''active_player'' = Inr (JStr ''Persia'')"
    by (simp_all add: opening_state_def dict_get_def)
  then show ?thesis
    by (simp add: fresh_game_def new_game_def init_session_def reply_state_def
        call_bridge_reply log_command_built dict_get_def log_opening_state)
qed

lemma one_turn_played_eq:
  "one_turn_played =
     \<lparr>game_state = after_draw, turn_number = 1,
      game_history = [\<lparr>turn = 1, player = JStr ''Persia'', action = JStr ''draw'', arg = JNull,
                       timestamp = ''2025-01-01T12:00:00'', game_state_before = opening_state,
                       game_state_after = after_draw\<rparr>],
      bridge_process = Some Running\<rparr>"
proof -
  have "truthy after_draw"
    and "py_get_default after_draw ''prompt'' (JStr []) =
           Inr (JStr ''Persian Preparation Phase: build'')"
    by (simp_all add: after_draw_def dict_get_default_def)
  then show ?thesis
    by (simp add: one_turn_played_def execute_action_def fresh_game_eq reply_state_def
        call_bridge_reply log_command_built dict_get_def log_after_draw)
qed

lemma finished_game_eq:
  "finished_game =
     \<lparr>game_state = finished_without_winner, turn_number = 2,
      game_history =
        [\<lparr>turn = 1, player = JStr ''Persia'', action = JStr ''draw'', arg = JNull,
          timestamp = ''2025-01-01T12:00:00'', game_state_before = opening_state,
          game_state_after = after_draw\<rparr>,
         \<lparr>turn = 2, player = JStr ''Persia'', action = JStr ''next'', arg = JNull,
          timestamp = ''2025-01-01T12:00:09'', game_state_before = after_draw,
          game_state_after = finished_without_winner\<rparr>],
      bridge_process = Some Running\<rparr>"
proof -
  have "truthy finished_without_winner"
    and "py_get_default finished_without_winner ''prompt'' (JStr []) = Inr (JStr [])"
    by (simp_all add: finished_without_winner_def dict_get_default_def)
  then show ?thesis
    by (simp add: finished_game_def execute_action_def one_turn_played_eq reply_state_def
        call_bridge_reply log_command_built dict_get_def log_finished_without_winner)
qed

subsection \<open>Accessors before any snapshot\<close>

text \<open>
  C10. In a session whose snapshot has never been set (\<open>game_state\<close> is still \<open>None\<close>)
  the read-only accessors return fixed defaults instead of failing: \<open>is_game_over\<close>
  returns \<open>False\<close>, \<open>get_winner\<close> and \<open>get_active_player\<close> return \<open>None\<close>, and
  \<open>get_prompt\<close> returns the empty string.
\<close>

theorem accessors_default_without_snapshot:
  "game_state s = JNull \<Longrightarrow>
     is_game_over s = Inr (JBool False) \<and> get_winner s = Inr JNull \<and>
     get_active_player s = Inr JNull \<and> get_prompt s = Inr (JStr [])"
  by (simp add: is_game_over_def get_winner_def get_active_player_def get_prompt_def)

theorem accessors_default_without_snapshot_witness:
  "game_state (init_session (Some Running)) = JNull \<and>
   is_game_over (init_session (Some Running)) = Inr (JBool False) \<and>
   get_winner (init_session (Some Running)) = Inr JNull \<and>
   get_active_player (init_session (Some Running)) = Inr JNull \<and>
   get_prompt (init_session (Some Running)) = Inr (JStr [])"
  using accessors_default_without_snapshot [of "init_session (Some Running)"]
  by (simp add: init_session_def)

subsection \<open>Listing actions\<close>

text \<open>
  C7. In a session whose snapshot has never been set, \<open>get_actions\<close> returns the
  structured failure \<open>{'success': False, 'error': 'No active game'}\<close> and leaves the
  session as it was, whatever \<open>include_undo\<close> is.
\<close>

theorem get_actions_no_active_session:
  "game_state s = JNull \<Longrightarrow>
     get_actions s include_undo =
       (Inr [(''success'', JBool False), (''error'', JStr ''No active game'')], s)"
  by (simp add: get_actions_def failure_def)

theorem get_actions_no_active_session_witness:
  "game_state (init_session (Some Running)) = JNull \<and>
   get_actions (init_session (Some Running)) False =
     (Inr [(''success'', JBool False), (''error'', JStr ''No active game'')],
      init_session (Some Running))"
  using get_actions_no_active_session [of "init_session (Some Running)" False]
  by (simp add: init_session_def)

lemma map_of_filter_undo:
  "k \<noteq> ''undo'' \<Longrightarrow> map_of (filter (\<lambda>(k, v). k \<noteq> ''undo'') raw) k = map_of raw k"
  by (induction raw) auto

text \<open>
  Whenever \<open>get_actions\<close> returns an action mapping, the snapshot is a non-empty
  mapping whose action mapping \<open>raw\<close> (empty when the field is missing) is the one
  returned, without the key \<open>undo\<close> unless \<open>include_undo\<close> is set.
\<close>

lemma get_actions_success_shape:
  assumes "get_actions s include_undo = (Inr r, s')"
    and "truthy (dict_get r ''success'')"
  shows "\<exists>d raw. game_state s = JObj d \<and> d \<noteq> [] \<and>
           dict_get_default d ''actions'' (JObj []) = JObj raw \<and>
           dict_get r ''actions'' =
             JObj (if include_undo then raw else filter (\<lambda>(k, v). k \<noteq> ''undo'') raw)"
proof (cases "truthy (game_state s)")
  case False
  with assms show ?thesis
    by (auto simp: get_actions_def failure_def dict_get_def)
next
  case True
  then obtain d where d: "game_state s = JObj d" and ne: "d \<noteq> []"
    using assms by (cases "game_state s") (auto simp: get_actions_def)
  obtain raw where raw: "dict_get_default d ''actions'' (JObj []) = JObj raw"
    using assms True d
    by (cases "dict_get_default d ''actions'' (JObj [])") (auto simp: get_actions_def)
  have "dict_get r ''actions'' =
          JObj (if include_undo then raw else filter (\<lambda>(k, v). k \<noteq> ''undo'') raw)"
    using assms True d raw by (auto simp: get_actions_def dict_get_def Let_def)
  with d ne raw show ?thesis by blast
qed

text \<open>
  C6. In every session whose snapshot is a non-empty mapping with an \<open>actions\<close> field
  that is a mapping \<open>raw\<close>, or with no such field (\<open>raw\<close> is then empty), \<open>get_actions\<close>
  succeeds for either value of \<open>include_undo\<close> and leaves the session as it was.
  Without \<open>include_undo\<close> the returned mapping is \<open>raw\<close> without the entry \<open>undo\<close>: it
  never has the key \<open>undo\<close>, and every other key is bound as in \<open>raw\<close>. With
  \<open>include_undo\<close> the returned mapping is \<open>raw\<close> itself: it has the key \<open>undo\<close>
  exactly when \<open>raw\<close> has it, and every key is bound as in \<open>raw\<close>.
\<close>

theorem get_actions_undo_filter:
  assumes "game_state s = JObj d" and "d \<noteq> []"
    and "dict_get_default d ''actions'' (JObj []) = JObj raw"
  shows "\<exists>r_f r_t acts_f acts_t.
           get_actions s False = (Inr r_f, s) \<and> get_actions s True = (Inr r_t, s) \<and>
           dict_get r_f ''success'' = JBool True \<and> dict_get r_t ''success'' = JBool True \<and>
           dict_get r_f ''actions'' = JObj acts_f \<and> dict_get r_t ''actions'' = JObj acts_t \<and>
           acts_f = filter (\<lambda>(k, v). k \<noteq> ''undo'') raw \<and> acts_t = raw \<and>
           ''undo'' \<notin> fst ` set acts_f \<and>
           (''undo'' \<in> fst ` set acts_t \<longleftrightarrow> ''undo'' \<in> fst ` set raw) \<and>
           (\<forall>k. k \<noteq> ''undo'' \<longrightarrow> map_of acts_f k = map_of raw k) \<and>
           (\<forall>k. map_of acts_t k = map_of raw k)"
proof -
  let ?f = "filter (\<lambda>(k, v). k \<noteq> ''undo'') raw"
  have f: "get_actions s False =
             (Inr [(''success'', JBool True), (''actions'', JObj ?f),
                   (''active_player'', dict_get d ''active_player''),
                   (''message'', JStr ''Available actions from game state (undo filtered)'')], s)"
    using assms by (simp add: get_actions_def)
  have t: "get_actions s True =
             (Inr [(''success'', JBool True), (''actions'', JObj raw),
                   (''active_player'', dict_get d ''active_player''),
                   (''message'', JStr ''Available actions from game state'')], s)"
    using assms by (simp add: get_actions_def)
  have u: "''undo'' \<notin> fst ` set ?f" by auto
  have k: "\<forall>k. k \<noteq> ''undo'' \<longrightarrow> map_of ?f k = map_of raw k"
    by (simp add: map_of_filter_undo)
  show ?thesis
    unfolding f t using u k by (simp add: dict_get_def)
qed

theorem get_actions_undo_filter_witness:
  "game_state fresh_game = opening_state \<and>
   get_actions fresh_game False =
     (Inr [(''success'', JBool True), (''actions'', JObj [(''draw'', JInt 1)]),
           (''active_player'', JStr ''Persia''),
           (''message'', JStr ''Available actions from game state (undo filtered)'')],
      fresh_game) \<and>
   get_actions fresh_game True =
     (Inr [(''success'', JBool True),
           (''actions'', JObj [(''draw'', JInt 1), (''undo'', JInt 1)]),
           (''active_player'', JStr ''Persia''),
           (''message'', JStr ''Available actions from game state'')],
      fresh_game)"
proof -
  let ?d = "[(''active_player'', JStr ''Persia''),
             (''prompt'', JStr ''Persian Preparation Phase''),
             (''actions'', JObj [(''draw'', JInt 1), (''undo'', JInt 1)]),
             (''game_over'', JBool False)]"
  have a: "game_state fresh_game = JObj ?d"
    by (simp add: fresh_game_eq opening_state_def)
  have b: "?d \<noteq> []" by simp
  have c: "dict_get_default ?d ''actions'' (JObj []) = JObj [(''draw'', JInt 1), (''undo'', JInt 1)]"
    by (simp add: dict_get_default_def)
  obtain r_f r_t where f: "get_actions fresh_game False = (Inr r_f, fresh_game)"
    and t: "get_actions fresh_game True = (Inr r_t, fresh_game)"
    and af: "dict_get r_f ''actions'' = JObj [(''draw'', JInt 1)]"
    and at: "dict_get r_t ''actions'' = JObj [(''draw'', JInt 1), (''undo'', JInt 1)]"
    using get_actions_undo_filter [OF a b c] by auto
  have "get_actions fresh_game False =
          (Inr [(''success'', JBool True), (''actions'', JObj [(''draw'', JInt 1)]),
                (''active_player'', JStr ''Persia''),
                (''message'', JStr ''Available actions from game state (undo filtered)'')],
           fresh_game)"
    using f af by (simp add: get_actions_def a dict_get_default_def dict_get_def)
  moreover have "get_actions fresh_game True =
          (Inr [(''success'', JBool True),
                (''actions'', JObj [(''draw'', JInt 1), (''undo'', JInt 1)]),
                (''active_player'', JStr ''Persia''),
                (''message'', JStr ''Available actions from game state'')],
           fresh_game)"
    using t at by (simp add: get_actions_def a dict_get_default_def dict_get_def)
  ultimately show ?thesis
    by (simp add: fresh_game_eq)
qed

text \<open>
  Two sessions with a snapshot for which no action mapping is returned. With the empty
  mapping as snapshot \<open>get_actions\<close> returns the failure \<open>No active game\<close>, for either
  value of \<open>include_undo\<close>. With a snapshot whose \<open>actions\<close> field is the list
  \<open>['draw', 'undo']\<close> it raises \<open>AttributeError\<close>, for either value.
\<close>

theorem get_actions_without_mapping:
  "game_state empty_snapshot_session = JObj [] \<and>
   get_actions empty_snapshot_session False =
     (Inr [(''success'', JBool False), (''error'', JStr ''No active game'')],
      empty_snapshot_session) \<and>
   get_actions empty_snapshot_session True =
     (Inr [(''success'', JBool False), (''error'', JStr ''No active game'')],
      empty_snapshot_session) \<and>
   game_state listed_actions_session = listed_actions \<and>
   get_actions listed_actions_session False =
     (Inl (no_attribute (JArr [JStr ''draw'', JStr ''undo'']) ''items''),
      listed_actions_session) \<and>
   get_actions listed_actions_session True =
     (Inl (no_attribute (JArr [JStr ''draw'', JStr ''undo'']) ''keys''),
      listed_actions_session)"
proof -
  have e: "game_state empty_snapshot_session = JObj []"
    by (simp add: empty_snapshot_session_def get_state_def init_session_def reply_state_def
        call_bridge_reply log_command_built dict_get_def)
  have l: "game_state listed_actions_session = listed_actions"
    by (simp add: listed_actions_session_def get_state_def init_session_def reply_state_def
        call_bridge_reply log_command_built dict_get_def)
  show ?thesis
    by (simp add: e l get_actions_def failure_def listed_actions_def dict_get_default_def
        dict_get_def)
qed

subsection \<open>Executing actions\<close>

text \<open>
  An action whose exchange fails is returned as the exchange gave it; the snapshot and
  the history stay, and the turn counter has been advanced by one.
\<close>

lemma execute_action_failed:
  "call_bridge (bridge_process s) io (action_command pl act ag) = Inr result \<Longrightarrow>
   \<not> truthy (dict_get result ''success'') \<Longrightarrow>
     execute_action s pl act ag now io = (Inr result, s\<lparr>turn_number := turn_number s + 1\<rparr>)"
  by (simp add: execute_action_def Let_def)

text \<open>
  An action whose exchange succeeds advances the turn counter by one, adopts the
  snapshot of the response and appends one record holding the new turn number, the
  player, the action, the argument, the time, and the snapshots before and after.
  This holds also when writing the digest of the new snapshot to the log raises.
\<close>

lemma execute_action_exchange_ok:
  "call_bridge (bridge_process s) io (action_command pl act ag) = Inr result \<Longrightarrow>
   truthy (dict_get result ''success'') \<Longrightarrow>
     snd (execute_action s pl act ag now io) =
       s\<lparr>turn_number := turn_number s + 1,
         game_state := dict_get result ''gameState'',
         game_history := game_history s @
           [\<lparr>turn = turn_number s + 1, player = pl, action = act, arg = ag, timestamp = now,
             game_state_before = game_state s,
             game_state_after = dict_get result ''gameState''\<rparr>]\<rparr>"
  by (simp add: execute_action_def Let_def split: sum.splits option.splits)

lemma execute_action_returns_exchange:
  "fst (execute_action s pl act ag now io) = Inr r \<Longrightarrow>
     call_bridge (bridge_process s) io (action_command pl act ag) = Inr r"
  by (auto simp: execute_action_def Let_def split: sum.splits option.splits if_splits)

lemma new_game_resets:
  "turn_number (snd (new_game s seed scenario options io)) = 0 \<and>
   game_history (snd (new_game s seed scenario options io)) = []"
  by (simp add: new_game_def Let_def split: sum.splits option.splits)

lemma succeeded_step:
  assumes "succeeded (fst (do_call s c))"
  shows "turn_number (snd (do_call s c)) = turn_number s + 1 \<and>
         length (game_history (snd (do_call s c))) = Suc (length (game_history s))"
proof -
  obtain pl act ag now io where c: "c = (pl, act, ag, now, io)"
    by (cases c) auto
  from assms obtain r where r: "fst (execute_action s pl act ag now io) = Inr r"
    and t: "truthy (dict_get r ''success'')"
    by (auto simp: succeeded_def do_call_def c split: sum.splits)
  from execute_action_exchange_ok [OF execute_action_returns_exchange [OF r] t, of now]
  show ?thesis
    by (simp add: do_call_def c)
qed

lemma all_succeed_counts:
  "all_succeed s calls \<Longrightarrow>
     turn_number (run_actions s calls) = turn_number s + int (length calls) \<and>
     length (game_history (run_actions s calls)) = length (game_history s) + length calls"
proof (induction calls arbitrary: s)
  case Nil
  then show ?case by simp
next
  case (Cons c cs)
  from Cons.prems have ok: "succeeded (fst (do_call s c))"
    and rest: "all_succeed (snd (do_call s c)) cs" by simp_all
  from Cons.IH [OF rest] succeeded_step [OF ok] show ?case by simp
qed

text \<open>
  C3. After a setup that succeeds, followed by any sequence of \<open>execute_action\<close> calls
  that all succeed, the turn number equals the number of calls and the history has as
  many records as the turn number says.
\<close>

theorem turn_index_counts_successes:
  assumes "new_game s seed scenario options io = (res, s0)"
    and "succeeded res"
    and "all_succeed s0 calls"
  shows "turn_number (run_actions s0 calls) = int (length calls) \<and>
         int (length (game_history (run_actions s0 calls))) = turn_number (run_actions s0 calls)"
proof -
  have "turn_number s0 = 0" and "game_history s0 = []"
    using new_game_resets [of s seed scenario options io] assms(1) by simp_all
  with all_succeed_counts [OF assms(3)] show ?thesis by simp
qed

theorem turn_index_counts_successes_witness:
  "new_game (init_session (Some Running)) (JInt 12345) (JStr ''Standard'') JNull
       (reply_state opening_state) =
     (Inr [(''success'', JBool True), (''gameState'', opening_state)], fresh_game) \<and>
   all_succeed fresh_game
     [(JStr ''Persia'', JStr ''draw'', JNull, ''2025-01-01T12:00:00'', reply_state after_draw)] \<and>
   turn_number (run_actions fresh_game
     [(JStr ''Persia'', JStr ''draw'', JNull, ''2025-01-01T12:00:00'', reply_state after_draw)]) = 1 \<and>
   length (game_history (run_actions fresh_game
     [(JStr ''Persia'', JStr ''draw'', JNull, ''2025-01-01T12:00:00'', reply_state after_draw)])) = 1"
proof -
  let ?r = "[(''success'', JBool True), (''gameState'', opening_state)]"
  let ?calls = "[(JStr ''Persia'', JStr ''draw'', JNull, ''2025-01-01T12:00:00'',
                  reply_state after_draw)]"
  have t: "truthy opening_state"
    and p: "py_get opening_state ''active_player'' = Inr (JStr ''Persia'')"
    by (simp_all add: opening_state_def dict_get_def)
  have a: "new_game (init_session (Some Running)) (JInt 12345) (JStr ''Standard'') JNull
             (reply_state opening_state) = (Inr ?r, fresh_game)"
    using t p
    by (simp add: fresh_game_eq new_game_def init_session_def reply_state_def
        call_bridge_reply log_command_built dict_get_def log_opening_state)
  have b: "succeeded (Inr ?r)"
    by (simp add: succeeded_def dict_get_def)
  have t2: "truthy after_draw"
    and p2: "py_get_default after_draw ''prompt'' (JStr []) =
               Inr (JStr ''Persian Preparation Phase: build'')"
    by (simp_all add: after_draw_def dict_get_default_def)
  have c: "all_succeed fresh_game ?calls"
    using t2 p2
    by (simp add: do_call_def succeeded_def execute_action_def fresh_game_eq reply_state_def
        call_bridge_reply log_command_built dict_get_def log_after_draw)
  from turn_index_counts_successes [OF a b c] a c show ?thesis by simp
qed

text \<open>
  C1. In a game just set up (turn number 0, empty history), an action the engine
  rejects with \<open>{'success': False, 'error': 'Invalid action'}\<close> is returned as that
  failure; the snapshot and the history are as before, and the turn number is 1.
\<close>

theorem failed_action_advances_turn:
  "execute_action fresh_game (JStr ''Persia'') (JStr ''bogus'') JNull ''2025-01-01T12:00:05''
       reply_rejected =
     (Inr [(''success'', JBool False), (''error'', JStr ''Invalid action'')],
      fresh_game\<lparr>turn_number := 1\<rparr>) \<and>
   turn_number fresh_game = 0"
  by (simp add: execute_action_def call_bridge_rejected log_command_built dict_get_def fresh_game_eq)

text \<open>
  Whatever mix of successful and failed actions is run, the recorded turn numbers
  increase strictly, start above zero and stay within the turn counter.
\<close>

lemma history_ordered_step:
  assumes "history_ordered s" and "0 \<le> turn_number s"
  shows "history_ordered (snd (do_call s c)) \<and> 0 \<le> turn_number (snd (do_call s c))"
proof -
  obtain pl act ag now io where c: "c = (pl, act, ag, now, io)"
    by (cases c) auto
  obtain result where res: "call_bridge (bridge_process s) io (action_command pl act ag) = Inr result"
    using call_bridge_returns [OF log_command_action] by blast
  show ?thesis
  proof (cases "truthy (dict_get result ''success'')")
    case False
    from execute_action_failed [OF res False, of now] assms show ?thesis
      by (auto simp: do_call_def c history_ordered_def list_all_iff)
  next
    case True
    from execute_action_exchange_ok [OF res True, of now] assms show ?thesis
      by (auto simp: do_call_def c history_ordered_def list_all_iff sorted_wrt_append)
  qed
qed

lemma history_ordered_run:
  "history_ordered s \<Longrightarrow> 0 \<le> turn_number s \<Longrightarrow> history_ordered (run_actions s calls)"
proof (induction calls arbitrary: s)
  case Nil
  then show ?case by simp
next
  case (Cons c cs)
  from history_ordered_step [OF Cons.prems, of c] Cons.IH show ?case by simp
qed

text \<open>
  C4. In a game just set up, a rejected action followed by a successful one leaves a
  history of one record, and that record carries turn number 2: the recorded turn
  numbers do not start at 1.
\<close>

theorem history_turn_gap_after_failure:
  "\<not> succeeded (fst (do_call fresh_game
        (JStr ''Persia'', JStr ''bogus'', JNull, ''2025-01-01T12:00:05'', reply_rejected))) \<and>
   succeeded (fst (do_call (fresh_game\<lparr>turn_number := 1\<rparr>)
        (JStr ''Persia'', JStr ''draw'', JNull, ''2025-01-01T12:00:09'', reply_state after_draw))) \<and>
   map turn (game_history (run_actions fresh_game
      [(JStr ''Persia'', JStr ''bogus'', JNull, ''2025-01-01T12:00:05'', reply_rejected),
       (JStr ''Persia'', JStr ''draw'', JNull, ''2025-01-01T12:00:09'', reply_state after_draw)])) = [2]"
proof -
  have t2: "truthy after_draw"
    and p2: "py_get_default after_draw ''prompt'' (JStr []) =
               Inr (JStr ''Persian Preparation Phase: build'')"
    by (simp_all add: after_draw_def dict_get_default_def)
  then show ?thesis
    by (simp add: do_call_def succeeded_def execute_action_def call_bridge_rejected
        fresh_game_eq reply_state_def call_bridge_reply log_command_built dict_get_def
        log_after_draw)
qed

subsection \<open>Setup\<close>




subsection \<open>The winner\<close>

text \<open>
  C5. After an action to which the engine answers with the snapshot
  \<open>{'game_over': True}\<close>, \<open>is_game_over\<close> returns \<open>True\<close> and \<open>get_winner\<close> returns
  \<open>None\<close>.
\<close>

theorem winner_absent_when_game_over:
  "fst (execute_action one_turn_played (JStr ''Persia'') (JStr ''next'') JNull
          ''2025-01-01T12:00:09'' (reply_state finished_without_winner)) =
     Inr [(''success'', JBool True), (''gameState'', finished_without_winner)] \<and>
   game_state finished_game = JObj [(''game_over'', JBool True)] \<and>
   is_game_over finished_game = Inr (JBool True) \<and>
   get_winner finished_game = Inr JNull"
proof -
  have t: "truthy finished_without_winner"
    and p: "py_get_default finished_without_winner ''prompt'' (JStr []) = Inr (JStr [])"
    by (simp_all add: finished_without_winner_def dict_get_default_def)
  have r: "fst (execute_action one_turn_played (JStr ''Persia'') (JStr ''next'') JNull
                 ''2025-01-01T12:00:09'' (reply_state finished_without_winner)) =
             Inr [(''success'', JBool True), (''gameState'', finished_without_winner)]"
    using t p
    by (simp add: execute_action_def one_turn_played_eq reply_state_def call_bridge_reply
        log_command_built dict_get_def log_finished_without_winner)
  have g: "game_state finished_game = JObj [(''game_over'', JBool True)]"
    by (simp add: finished_game_eq finished_without_winner_def)
  from r g show ?thesis
    by (simp add: is_game_over_def get_winner_def dict_get_default_def dict_get_def)
qed

subsection \<open>The bridge exchange\<close>

text \<open>
  C8. For a command that the operations build (\<open>setup\<close>, \<open>state\<close>, \<open>quit\<close>, or
  \<open>action\<close> with a mapping of arguments), and for every command when no process is
  running, \<open>_call_bridge\<close> returns a mapping and does not raise: either a mapping with
  success \<open>False\<close> and an error text, or the mapping the engine's line decodes to,
  returned as it is. Without a running process the error is
  \<open>Bridge server not running\<close>; when the written command is answered by a closed
  stream it is \<open>No response from bridge\<close>; when \<open>json.loads\<close> raises
  \<open>JSONDecodeError\<close> it is \<open>JSON decode error: ...\<close> with the parser's text; when the
  decoding raises anything else it is \<open>Bridge communication error: ...\<close>. With a
  running process, a command \<open>action\<close> whose arguments are not a mapping makes the
  method raise before anything is written.
\<close>

theorem call_bridge_structured:
  "(bp \<noteq> Some Running \<longrightarrow>
      call_bridge bp io command =
        Inr [(''success'', JBool False), (''error'', JStr ''Bridge server not running'')]) \<and>
   (bp = Some Running \<and> log_command command = None \<and> write_error io = None \<and>
    read_error io = None \<and> response_line io = [] \<longrightarrow>
      call_bridge bp io command =
        Inr [(''success'', JBool False), (''error'', JStr ''No response from bridge'')]) \<and>
   (bp = Some Running \<and> log_command command = None \<and> write_error io = None \<and>
    read_error io = None \<and> response_line io \<noteq> [] \<and> decoded io = Inl (JSONDecodeError m) \<longrightarrow>
      call_bridge bp io command =
        Inr [(''success'', JBool False), (''error'', JStr (''JSON decode error: '' @ m))]) \<and>
   (bp = Some Running \<and> log_command command = None \<and> write_error io = None \<and>
    read_error io = None \<and> response_line io \<noteq> [] \<and> decoded io = Inl e \<and>
    (\<forall>m'. e \<noteq> JSONDecodeError m') \<longrightarrow>
      call_bridge bp io command =
        Inr [(''success'', JBool False),
             (''error'', JStr (''Bridge communication error: '' @ err_str e))]) \<and>
   (bp \<noteq> Some Running \<or> log_command command = None \<longrightarrow>
      (\<exists>msg. call_bridge bp io command =
                Inr [(''success'', JBool False), (''error'', JStr msg)]) \<or>
      (\<exists>d. bp = Some Running \<and> decoded io = Inr (JObj d) \<and>
            call_bridge bp io command = Inr d)) \<and>
   (bp = Some Running \<and> log_command command = Some e' \<longrightarrow>
      call_bridge bp io command = Inl e') \<and>
   log_command (setup_command seed scenario options) = None \<and>
   log_command (action_command pl act ag) = None \<and>
   log_command [(''cmd'', JStr ''state'')] = None \<and>
   log_command [(''cmd'', JStr ''quit'')] = None"
proof (cases "bp = Some Running")
  case False
  then show ?thesis
    by (simp add: call_bridge_not_running failure_def log_command_built)
next
  case True
  have a: "write_error io = None \<Longrightarrow> read_error io = None \<Longrightarrow> response_line io = [] \<Longrightarrow>
           exchange io command = Inr (failure ''No response from bridge'')"
    by (simp add: exchange_def)
  have b: "write_error io = None \<Longrightarrow> read_error io = None \<Longrightarrow> response_line io \<noteq> [] \<Longrightarrow>
           decoded io = Inl x \<Longrightarrow> exchange io command = Inl x" for x
    by (simp add: exchange_def)
  have c: "(\<exists>msg. exchange io command = Inr (failure msg)) \<or>
           (\<exists>x. exchange io command = Inl x) \<or>
           (\<exists>d. decoded io = Inr (JObj d) \<and> exchange io command = Inr d)"
    by (auto simp: exchange_def split: option.splits sum.splits json.splits)
  have d: "log_command command = None \<Longrightarrow>
           (\<exists>msg. call_bridge (Some Running) io command = Inr (failure msg)) \<or>
           (\<exists>d. decoded io = Inr (JObj d) \<and> call_bridge (Some Running) io command = Inr d)"
    using c by (auto simp: call_bridge_def split: pyerr.splits)
  have e: "log_command command = None \<Longrightarrow> exchange io command = Inl x \<Longrightarrow>
           \<forall>m'. x \<noteq> JSONDecodeError m' \<Longrightarrow>
           call_bridge (Some Running) io command =
             Inr (failure (''Bridge communication error: '' @ err_str x))" for x
    by (cases x) (simp_all add: call_bridge_def)
  show ?thesis
    unfolding True
    using a b d e
    by (auto simp: call_bridge_def failure_def log_command_built)
qed

theorem call_bridge_structured_witness:
  "call_bridge (Some (Exited 1)) reply_rejected [(''cmd'', JStr ''state'')] =
     Inr [(''success'', JBool False), (''error'', JStr ''Bridge server not running'')] \<and>
   call_bridge (Some Running)
       \<lparr>write_error = None, read_error = None, response_line = [],
        decoded = Inl (JSONDecodeError [])\<rparr>
       [(''cmd'', JStr ''state'')] =
     Inr [(''success'', JBool False), (''error'', JStr ''No response from bridge'')] \<and>
   call_bridge (Some Running)
       \<lparr>write_error = None, read_error = None, response_line = ''not json'',
        decoded = Inl (JSONDecodeError ''Expecting value: line 1 column 1 (char 0)'')\<rparr>
       [(''cmd'', JStr ''state'')] =
     Inr [(''success'', JBool False),
          (''error'', JStr ''JSON decode error: Expecting value: line 1 column 1 (char 0)'')] \<and>
   call_bridge (Some Running) reply_long_integer [(''cmd'', JStr ''state'')] =
     Inr [(''success'', JBool False),
          (''error'', JStr (''Bridge communication error: '' @
             ''Exceeds the limit (4300 digits) for integer string conversion''))] \<and>
   call_bridge (Some Running) reply_rejected [(''cmd'', JStr ''action''), (''args'', JNull)] =
     Inl (no_attribute JNull ''get'')"
proof -
  let ?state = "[(''cmd'', JStr ''state'')]"
  let ?bad = "[(''cmd'', JStr ''action''), (''args'', JNull)]"
  have s: "log_command ?state = None"
    by (simp add: log_command_def dict_get_default_def)
  have b: "log_command ?bad = Some (no_attribute JNull ''get'')"
    by (simp add: log_command_def dict_get_default_def)
  have l: "response_line reply_long_integer \<noteq> []"
    and v: "decoded reply_long_integer =
              Inl (ValueError ''Exceeds the limit (4300 digits) for integer string conversion'')"
    and w: "write_error reply_long_integer = None" "read_error reply_long_integer = None"
    by (simp_all add: reply_long_integer_def)
  show ?thesis
    using call_bridge_structured [of "Some (Exited 1)" reply_rejected ?state]
      call_bridge_structured [of "Some Running"
        "\<lparr>write_error = None, read_error = None, response_line = [],
          decoded = Inl (JSONDecodeError [])\<rparr>" ?state]
      call_bridge_structured [of "Some Running"
        "\<lparr>write_error = None, read_error = None, response_line = ''not json'',
          decoded = Inl (JSONDecodeError ''Expecting value: line 1 column 1 (char 0)'')\<rparr>"
        ?state "''Expecting value: line 1 column 1 (char 0)''"]
      call_bridge_structured [of "Some Running" reply_long_integer ?state _
        "ValueError ''Exceeds the limit (4300 digits) for integer string conversion''"]
      call_bridge_structured [of "Some Running" reply_rejected ?bad _ _
        "no_attribute JNull ''get''"]
      s b l v w
    by simp
qed

text \<open>
  Three exchanges with a running process. An engine line that decodes to the empty
  mapping is returned as the empty mapping, with no success flag and no error text. A
  line holding an integer of 5000 digits, on which the decoding raises \<open>ValueError\<close>,
  gives the failure \<open>Bridge communication error: ...\<close>, not \<open>JSON decode error: ...\<close>.
  A command \<open>action\<close> whose arguments are \<open>None\<close> makes the method raise
  \<open>AttributeError\<close>.
\<close>

theorem call_bridge_passes_engine_mapping:
  "call_bridge (Some Running) (engine_reply ''{}'' (JObj [])) [(''cmd'', JStr ''state'')] =
     Inr [] \<and>
   call_bridge (Some Running) reply_long_integer [(''cmd'', JStr ''state'')] =
     Inr [(''success'', JBool False),
          (''error'', JStr (''Bridge communication error: '' @
             ''Exceeds the limit (4300 digits) for integer string conversion''))] \<and>
   call_bridge (Some Running) reply_rejected [(''cmd'', JStr ''action''), (''args'', JNull)] =
     Inl (no_attribute JNull ''get'')"
proof -
  have a: "call_bridge (Some Running) (engine_reply ''{}'' (JObj [])) [(''cmd'', JStr ''state'')] =
             Inr []"
    by (simp add: call_bridge_reply log_command_built)
  have b: "call_bridge (Some Running) reply_long_integer [(''cmd'', JStr ''state'')] =
             Inr [(''success'', JBool False),
                  (''error'', JStr (''Bridge communication error: '' @
                     ''Exceeds the limit (4300 digits) for integer string conversion''))]"
    by (simp add: call_bridge_def log_command_built exchange_def reply_long_integer_def
        failure_def)
  have c: "call_bridge (Some Running) reply_rejected
             [(''cmd'', JStr ''action''), (''args'', JNull)] = Inl (no_attribute JNull ''get'')"
    by (simp add: call_bridge_def log_command_def dict_get_default_def)
  from a b c show ?thesis by simp
qed

subsection \<open>Shutdown\<close>

lemma py_del_never_raises: "fst (py_del s sio) = None"
  by (simp add: py_del_def split: option.splits proc_status.splits sum.splits)

lemma py_del_after_exit: "bridge_process s \<noteq> Some Running \<Longrightarrow> py_del s sio = (None, s)"
  by (auto simp: py_del_def split: option.splits proc_status.splits)

lemma shutdown_many_never_raises: "fst (shutdown_many s sios) = None"
proof (induction sios arbitrary: s)
  case Nil
  show ?case by simp
next
  case (Cons sio rest)
  obtain s' where "py_del s sio = (None, s')"
    using py_del_never_raises [of s sio] by (cases "py_del s sio") auto
  with Cons.IH [of s'] show ?case by simp
qed

lemma shutdown_many_after_exit:
  "bridge_process s \<noteq> Some Running \<Longrightarrow> shutdown_many s sios = (None, s)"
  by (induction sios) (simp_all add: py_del_after_exit)

lemma process_exits_not_running: "bridge_process (process_exits c s) \<noteq> Some Running"
  by (simp add: process_exits_def split: option.splits)

text \<open>
  C9. Shutdown called any number of times never raises. When the process is not
  running (it has exited, or was never started) every call returns without touching
  the session, so the process stays exited; this holds in particular after the process
  was killed from outside.
\<close>

theorem shutdown_idempotent_after_exit:
  "fst (shutdown_many s sios) = None \<and>
   (bridge_process s \<noteq> Some Running \<longrightarrow> shutdown_many s sios = (None, s)) \<and>
   shutdown_many (process_exits c s) sios = (None, process_exits c s)"
  by (simp add: shutdown_many_never_raises shutdown_many_after_exit process_exits_not_running)

theorem shutdown_idempotent_after_exit_witness:
  "bridge_process (process_exits (- 9) one_turn_played) = Some (Exited (- 9)) \<and>
   shutdown_many (process_exits (- 9) one_turn_played)
     [\<lparr>quit_io = reply_rejected, wait_result = None, after_terminate = Running\<rparr>,
      \<lparr>quit_io = reply_rejected, wait_result = Some 0, after_terminate = Running\<rparr>] =
     (None, process_exits (- 9) one_turn_played)"
proof -
  have a: "bridge_process (process_exits (- 9) one_turn_played) = Some (Exited (- 9))"
    by (simp add: process_exits_def one_turn_played_eq)
  then have b: "bridge_process (process_exits (- 9) one_turn_played) \<noteq> Some Running"
    by simp
  from shutdown_idempotent_after_exit [of "process_exits (- 9) one_turn_played"
      "[\<lparr>quit_io = reply_rejected, wait_result = None, after_terminate = Running\<rparr>,
        \<lparr>quit_io = reply_rejected, wait_result = Some 0, after_terminate = Running\<rparr>]"] a b
  show ?thesis by simp
qed

end
